theory Spec2Isabelle
  imports Complex_Main "HOL-Library.Word"
begin

section \<open>Go values\<close>

text \<open>
  The plugin is Go code. A byte is an 8-bit word, an \<^verbatim>\<open>error\<close> value is
  represented by its message, and a runtime panic is a value of its own, so that a
  function that may panic returns \<open>panic + 'a\<close>.
\<close>

type_synonym byte = "8 word"


datatype panic = DivideByZero | MakeOutOfRange | SliceOutOfRange | NilDereference

subsection \<open>int64\<close>

text \<open>
  \<^verbatim>\<open>int64\<close> values are integers in \<open>[-2^63, 2^63)\<close>; addition and subtraction
  wrap around and \<^verbatim>\<open>/\<close> truncates towards zero. (\<^verbatim>\<open>int\<close> is 64 bits wide on
  the amd64 targets the Makefile builds for.)
\<close>

definition wrap64 :: "int \<Rightarrow> int" where
  "wrap64 x = (x + 2 ^ 63) mod 2 ^ 64 - 2 ^ 63"




section \<open>restore.go: the chunk plan of downloadFileInParallel\<close>





subsection \<open>What a plan has to satisfy\<close>




section \<open>s3plugin.go\<close>

subsection \<open>The functions of package strings that the plugin calls\<close>

text \<open>
  \<^verbatim>\<open>strings.Split(s, sep)\<close> for a separator of one byte: the pieces of \<open>s\<close> between
  the separators, so one piece more than there are separators.
\<close>

fun Split :: "string \<Rightarrow> char \<Rightarrow> string list" where
  "Split [] sep = [[]]"
| "Split (x # xs) sep =
     (let rest = Split xs sep in if x = sep then [] # rest else (x # hd rest) # tl rest)"

text \<open>\<^verbatim>\<open>strings.Join(elems, sep)\<close>\<close>

fun Join :: "string list \<Rightarrow> string \<Rightarrow> string" where
  "Join [] sep = []"
| "Join [x] sep = x"
| "Join (x # y # ys) sep = x @ sep @ Join (y # ys) sep"



subsection \<open>GetS3Path\<close>

text \<open>
  \<^verbatim>\<open>pathArray := strings.Split(path, "/")\<close>,
  \<^verbatim>\<open>lastFour := strings.Join(pathArray[(len(pathArray)-4):], "/")\<close>,
  \<^verbatim>\<open>return fmt.Sprintf("%s/%s", folder, lastFour)\<close>.
  The slice expression panics when its lower bound is negative.
\<close>

definition GetS3Path :: "string \<Rightarrow> string \<Rightarrow> panic + string" where
  "GetS3Path folder path =
     (let pathArray = Split path CHR ''/'' in
      if int (length pathArray) - 4 < 0 then Inl SliceOutOfRange
      else let lastFour = Join (drop (length pathArray - 4) pathArray) ''/''
           in Inr (folder @ ''/'' @ lastFour))"

subsection \<open>CustomRetryer.ShouldRetry\<close>






section \<open>The chunk plan: lemmas\<close>


lemma wrap64_id: "- (2 ^ 63) \<le> x \<Longrightarrow> x < 2 ^ 63 \<Longrightarrow> wrap64 x = x"
  by (simp add: wrap64_def)


















section \<open>GetS3Path and the retryer: lemmas\<close>

lemma Split_nonempty: "Split s c \<noteq> []"
  by (induction s) (auto simp: Let_def)

lemma Join_Cons: "ws \<noteq> [] \<Longrightarrow> Join (w # ws) sep = w @ sep @ Join ws sep"
  by (cases ws) auto

lemma Join_Split: "Join (Split s c) [c] = s"
proof (induction s)
  case Nil
  then show ?case by simp
next
  case (Cons x xs)
  obtain w ws where r: "Split xs c = w # ws"
    using Split_nonempty [of xs c] by (cases "Split xs c") auto
  show ?case
  proof (cases "x = c")
    case True
    then show ?thesis
      using Cons r by (simp add: Let_def)
  next
    case False
    then show ?thesis
      using Cons r by (cases ws) (auto simp: Let_def)
  qed
qed

lemma Split_no_sep: "w \<in> set (Split s c) \<Longrightarrow> c \<notin> set w"
proof (induction s arbitrary: w)
  case Nil
  then show ?case by simp
next
  case (Cons x xs)
  obtain v vs where r: "Split xs c = v # vs"
    using Split_nonempty [of xs c] by (cases "Split xs c") auto
  show ?case
    using Cons.prems Cons.IH [of v] Cons.IH [of w] r
    by (auto simp: Let_def split: if_splits)
qed

lemma length_Split: "length (Split s c) = Suc (count_list s c)"
proof (induction s)
  case Nil
  then show ?case by simp
next
  case (Cons x xs)
  obtain v vs where r: "Split xs c = v # vs"
    using Split_nonempty [of xs c] by (cases "Split xs c") auto
  show ?case
    using Cons r by (auto simp: Let_def)
qed

lemma Split_single: "c \<notin> set w \<Longrightarrow> Split w c = [w]"
  by (induction w) (auto simp: Let_def)

lemma Split_append_sep: "c \<notin> set w \<Longrightarrow> Split (w @ c # s) c = w # Split s c"
  by (induction w) (auto simp: Let_def)

lemma Split_Join:
  "comps \<noteq> [] \<Longrightarrow> \<forall>w \<in> set comps. c \<notin> set w \<Longrightarrow> Split (Join comps [c]) c = comps"
proof (induction comps)
  case Nil
  then show ?case by simp
next
  case (Cons w ws)
  show ?case
  proof (cases ws)
    case Nil
    then show ?thesis using Cons.prems by (simp add: Split_single)
  next
    case (Cons v vs)
    then show ?thesis
      using Cons.prems Cons.IH by (simp add: Split_append_sep)
  qed
qed



section \<open>The claims\<close>









text \<open>
  C10. A path is the join, with "/", of its \<open>count '/' + 1\<close> components.  GetS3Path
  returns \<open>folder + "/" +\<close> the last four components joined by "/" when there are at least
  four, and panics (slice bounds out of range) when there are fewer, as for "a/b/c".
\<close>

theorem GetS3Path_last_four:
  "(comps \<noteq> [] \<and> (\<forall>w \<in> set comps. CHR ''/'' \<notin> set w) \<longrightarrow>
      (4 \<le> length comps \<longrightarrow>
         GetS3Path folder (Join comps ''/'')
           = Inr (folder @ ''/'' @ Join (drop (length comps - 4) comps) ''/''))
    \<and> (length comps < 4 \<longrightarrow> GetS3Path folder (Join comps ''/'') = Inl SliceOutOfRange))
   \<and> (\<exists>cs. cs \<noteq> [] \<and> (\<forall>w \<in> set cs. CHR ''/'' \<notin> set w) \<and> path = Join cs ''/''
          \<and> length cs = Suc (count_list path CHR ''/''))
   \<and> GetS3Path ''s3/Dir''
        ''/a/b/c/tmp/datadir/gpseg-1/backups/20180101/20180101082233/backup_file''
       = Inr ''s3/Dir/backups/20180101/20180101082233/backup_file''
   \<and> GetS3Path folder ''a/b/c'' = Inl SliceOutOfRange"
proof (intro conjI impI)
  assume h: "comps \<noteq> [] \<and> (\<forall>w \<in> set comps. CHR ''/'' \<notin> set w)"
  then have s: "Split (Join comps ''/'') CHR ''/'' = comps"
    using Split_Join [of comps "CHR ''/''"] by simp
  show "GetS3Path folder (Join comps ''/'')
           = Inr (folder @ ''/'' @ Join (drop (length comps - 4) comps) ''/'')"
    if "4 \<le> length comps"
    using that by (simp add: GetS3Path_def s Let_def)
  show "GetS3Path folder (Join comps ''/'') = Inl SliceOutOfRange"
    if "length comps < 4"
    using that by (simp add: GetS3Path_def s Let_def)
next
  show "\<exists>cs. cs \<noteq> [] \<and> (\<forall>w \<in> set cs. CHR ''/'' \<notin> set w) \<and> path = Join cs ''/''
          \<and> length cs = Suc (count_list path CHR ''/'')"
    using Split_nonempty [of path "CHR ''/''"] Join_Split [of path "CHR ''/''"]
      Split_no_sep [of _ path "CHR ''/''"] length_Split [of path "CHR ''/''"]
    by (intro exI [of _ "Split path CHR ''/''"]) auto
next
  show "GetS3Path ''s3/Dir''
        ''/a/b/c/tmp/datadir/gpseg-1/backups/20180101/20180101082233/backup_file''
       = Inr ''s3/Dir/backups/20180101/20180101082233/backup_file''"
    by (simp add: GetS3Path_def Let_def)
next
  show "GetS3Path folder ''a/b/c'' = Inl SliceOutOfRange"
    by (simp add: GetS3Path_def Let_def)
qed

text \<open>The theorem at five components and at three.\<close>

theorem GetS3Path_last_four_witness:
  "[''tmp'', ''backups'', ''20180101'', ''20180101082233'', ''f.gz''] \<noteq> []
   \<and> GetS3Path ''dir'' ''tmp/backups/20180101/20180101082233/f.gz''
       = Inr ''dir/backups/20180101/20180101082233/f.gz''
   \<and> GetS3Path ''dir'' ''backups/20180101/f.gz'' = Inl SliceOutOfRange"
proof -
  have a: "[''tmp'', ''backups'', ''20180101'', ''20180101082233'', ''f.gz''] \<noteq> []
      \<and> (\<forall>w \<in> set [''tmp'', ''backups'', ''20180101'', ''20180101082233'', ''f.gz''].
            CHR ''/'' \<notin> set w)"
    by simp
  have b: "[''backups'', ''20180101'', ''f.gz''] \<noteq> []
      \<and> (\<forall>w \<in> set [''backups'', ''20180101'', ''f.gz'']. CHR ''/'' \<notin> set w)"
    by simp
  show ?thesis
    using a b
      GetS3Path_last_four [where folder = "''dir''"
        and comps = "[''tmp'', ''backups'', ''20180101'', ''20180101082233'', ''f.gz'']"]
      GetS3Path_last_four [where folder = "''dir''"
        and comps = "[''backups'', ''20180101'', ''f.gz'']"]
    by simp
qed

end
